theory Spec2Isabelle
  imports Complex_Main
begin

section \<open>Decimal values\<close>

text \<open>
  The component \<^verbatim>\<open>Withdraw.tsx\<close> computes with the decimal type it imports from
  \<^verbatim>\<open>lib/bignumber/bignumber\<close> (\<^verbatim>\<open>BigNumber\<close>, \<^verbatim>\<open>bn\<close>, \<^verbatim>\<open>bnOrZero\<close>).
  A value of that type is a finite decimal, one of the two infinities, or \<^verbatim>\<open>NaN\<close>.
  Whatever the source hands to the decimal type (a string of the form, a number, a
  decimal) is represented here by the decimal it denotes: \<open>BN_NaN\<close> stands for every
  input that does not parse as a number (\<^verbatim>\<open>undefined\<close>, \<^verbatim>\<open>''\<close>, \<^verbatim>\<open>'abc'\<close>).
  Finite values are rationals; the sign of a zero is not tracked.
\<close>

datatype bignum = BN_NaN | BN_PInf | BN_NInf | BN_Fin rat

datatype rounding_mode = ROUND_DOWN | ROUND_HALF_UP

text \<open>
  Modelled from the spec: the decimal arithmetic of \<^verbatim>\<open>lib/bignumber/bignumber\<close> is not
  part of the component's file. The spec asks for "arbitrary-precision decimal
  arithmetic" and normalises "by dividing by 10^assetPrecision": products and
  quotients of finite values are exact, with no bound on the number of decimal places
  kept. \<^verbatim>\<open>NaN\<close> is absorbing, and the infinities follow the usual sign rules.
\<close>

definition inf_of_sign :: "rat \<Rightarrow> bignum" where
  "inf_of_sign s = (if s = 0 then BN_NaN else if 0 < s then BN_PInf else BN_NInf)"

fun bn_sign :: "bignum \<Rightarrow> rat" where
  "bn_sign BN_NaN = 0"
| "bn_sign BN_PInf = 1"
| "bn_sign BN_NInf = - 1"
| "bn_sign (BN_Fin a) = sgn a"

fun times_bn :: "bignum \<Rightarrow> bignum \<Rightarrow> bignum" where
  "times_bn BN_NaN y = BN_NaN"
| "times_bn x BN_NaN = BN_NaN"
| "times_bn (BN_Fin a) (BN_Fin b) = BN_Fin (a * b)"
| "times_bn x y = inf_of_sign (bn_sign x * bn_sign y)"

fun div_bn :: "bignum \<Rightarrow> bignum \<Rightarrow> bignum" where
  "div_bn BN_NaN y = BN_NaN"
| "div_bn x BN_NaN = BN_NaN"
| "div_bn (BN_Fin a) (BN_Fin b) = (if b = 0 then inf_of_sign (sgn a) else BN_Fin (a / b))"
| "div_bn (BN_Fin a) y = BN_Fin 0"
| "div_bn x (BN_Fin b) = inf_of_sign (bn_sign x * (if b < 0 then - 1 else 1))"
| "div_bn x y = BN_NaN"

text \<open>
  Modelled from the spec: \<^verbatim>\<open>comparedTo\<close> and the comparisons built on it (\<^verbatim>\<open>gt\<close>,
  \<^verbatim>\<open>gte\<close>, \<^verbatim>\<open>isEqualTo\<close>) belong to the decimal type. A comparison with \<^verbatim>\<open>NaN\<close>
  has no result, and every test on it is false.
\<close>

definition cmp_rat :: "rat \<Rightarrow> rat \<Rightarrow> int" where
  "cmp_rat a b = (if a < b then - 1 else if a = b then 0 else 1)"

fun comparedTo :: "bignum \<Rightarrow> bignum \<Rightarrow> int option" where
  "comparedTo BN_NaN y = None"
| "comparedTo x BN_NaN = None"
| "comparedTo (BN_Fin a) (BN_Fin b) = Some (cmp_rat a b)"
| "comparedTo x y = Some (cmp_rat (bn_sign x) (bn_sign y))"

definition gt :: "bignum \<Rightarrow> bignum \<Rightarrow> bool" where
  "gt x y = (comparedTo x y = Some 1)"

definition gte :: "bignum \<Rightarrow> bignum \<Rightarrow> bool" where
  "gte x y = (comparedTo x y = Some 1 \<or> comparedTo x y = Some 0)"

definition isEqualTo :: "bignum \<Rightarrow> bignum \<Rightarrow> bool" where
  "isEqualTo x y = (comparedTo x y = Some 0)"

fun isFinite :: "bignum \<Rightarrow> bool" where
  "isFinite (BN_Fin a) = True"
| "isFinite x = False"

text \<open>
  Modelled from the spec: \<^verbatim>\<open>bnOrZero\<close> is defined in \<^verbatim>\<open>lib/bignumber/bignumber\<close>, which
  is not part of the component's file, and the spec does not describe it. It is taken
  by its name and by its use in the component: a value that is not a finite number
  becomes 0, and a finite number, whatever its sign, is returned as it is.
\<close>

definition bnOrZero :: "bignum \<Rightarrow> bignum" where
  "bnOrZero n = (if isFinite n then n else BN_Fin 0)"

text \<open>The template string \<^verbatim>\<open>`1e+${asset.precision}`\<close>, read as a decimal.\<close>

definition pow10 :: "nat \<Rightarrow> bignum" where
  "pow10 p = BN_Fin (10 ^ p)"

text \<open>
  Modelled from the spec: rounding belongs to the decimal type. \<open>ROUND_DOWN\<close> is
  "truncation (round toward zero)"; \<open>ROUND_HALF_UP\<close>, the mode in force when the
  source names none, rounds to the nearest integer and a tie away from zero.
  \<open>decimalPlaces d m\<close> keeps \<open>d\<close> decimal places.
\<close>

fun round_int :: "rounding_mode \<Rightarrow> rat \<Rightarrow> int" where
  "round_int ROUND_DOWN x = (if x < 0 then - \<lfloor>- x\<rfloor> else \<lfloor>x\<rfloor>)"
| "round_int ROUND_HALF_UP x = (if x < 0 then - \<lfloor>- x + 1 / 2\<rfloor> else \<lfloor>x + 1 / 2\<rfloor>)"

definition ROUNDING_MODE :: rounding_mode where
  "ROUNDING_MODE = ROUND_HALF_UP"

fun decimalPlaces :: "nat \<Rightarrow> rounding_mode \<Rightarrow> bignum \<Rightarrow> bignum" where
  "decimalPlaces d m (BN_Fin a) = BN_Fin (of_int (round_int m (a * 10 ^ d)) / 10 ^ d)"
| "decimalPlaces d m x = x"

subsection \<open>Decimal strings of integers\<close>

definition digit_char :: "nat \<Rightarrow> char" where
  "digit_char d = ''0123456789'' ! d"

function show_nat :: "nat \<Rightarrow> string" where
  "show_nat n = (if n < 10 then [digit_char n] else show_nat (n div 10) @ [digit_char (n mod 10)])"
  by pat_completeness auto
termination
  by (relation "measure id") auto

declare show_nat.simps [simp del]

definition show_int :: "int \<Rightarrow> string" where
  "show_int i = (if i < 0 then CHR ''-'' # show_nat (nat (- i)) else show_nat (nat i))"

text \<open>\<^verbatim>\<open>toFixed(0)\<close>: the value rounded to an integer in the mode in force, as a string.\<close>

fun toFixed0 :: "bignum \<Rightarrow> string" where
  "toFixed0 (BN_Fin a) = show_int (round_int ROUNDING_MODE a)"
| "toFixed0 BN_NaN = ''NaN''"
| "toFixed0 BN_PInf = ''Infinity''"
| "toFixed0 BN_NInf = ''-Infinity''"

section \<open>Amount validation\<close>

text \<open>
  A validator returns \<^verbatim>\<open>''\<close>, \<^verbatim>\<open>true\<close> or the key \<^verbatim>\<open>'common.insufficientFunds'\<close>.
\<close>

datatype js_value = JStr string | JBool bool

text \<open>
  \<^verbatim>\<open>validateCryptoAmount\<close> (lines 211-217). \<open>balance\<close> is the raw portfolio balance and
  \<open>precision\<close> is \<^verbatim>\<open>asset.precision\<close>, both read from the store by the component.
\<close>

definition validateCryptoAmount :: "bignum \<Rightarrow> nat \<Rightarrow> bignum \<Rightarrow> js_value" where
  "validateCryptoAmount balance precision val =
     (let crypto = bnOrZero (div_bn balance (pow10 precision));
          value' = bnOrZero val;
          hasValidBalance = (gt crypto (BN_Fin 0) \<and> gt value' (BN_Fin 0) \<and> gte crypto val)
      in if isEqualTo value' (BN_Fin 0) then JStr ''''
         else if hasValidBalance then JBool True
         else JStr ''common.insufficientFunds'')"

text \<open>
  \<^verbatim>\<open>validateFiatAmount\<close> (lines 219-226). \<open>price\<close> is \<^verbatim>\<open>marketData?.price\<close>.
\<close>

definition validateFiatAmount :: "bignum \<Rightarrow> nat \<Rightarrow> bignum \<Rightarrow> bignum \<Rightarrow> js_value" where
  "validateFiatAmount balance precision price val =
     (let crypto = bnOrZero (div_bn balance (pow10 precision));
          fiat = times_bn crypto (bnOrZero price);
          value' = bnOrZero val;
          hasValidBalance = (gt fiat (BN_Fin 0) \<and> gt value' (BN_Fin 0) \<and> gte fiat val)
      in if isEqualTo value' (BN_Fin 0) then JStr ''''
         else if hasValidBalance then JBool True
         else JStr ''common.insufficientFunds'')"


section \<open>The withdrawal step\<close>

subsection \<open>Data\<close>

datatype withdraw_type = DELAYED | INSTANT

text \<open>The members of \<^verbatim>\<open>DefiStep\<close> and of \<^verbatim>\<open>Field\<close> that the component names.\<close>

datatype defi_step = Approve | Confirm

datatype form_field = FiatAmount | CryptoAmount

text \<open>\<^verbatim>\<open>FoxyWithdrawValues\<close> (lines 33-35): the values of the submitted form.\<close>

record foxy_withdraw_values =
  cryptoAmount :: bignum
  fiatAmount :: bignum
  withdrawType :: withdraw_type

text \<open>
  A rejected promise carries what was thrown: an \<^verbatim>\<open>Error\<close> with its message, or some
  other value (for which \<^verbatim>\<open>error instanceof Error\<close> is false).
\<close>

datatype js_thrown = JsError string | JsOther string

datatype 'a promise = Resolved 'a | Rejected js_thrown

text \<open>
  The calls of the provider object \<^verbatim>\<open>api\<close>, with their arguments in the order
  \<^verbatim>\<open>tokenContractAddress\<close>, \<^verbatim>\<open>contractAddress\<close>, (\<^verbatim>\<open>amountDesired\<close>,)
  \<^verbatim>\<open>userAddress\<close>, (\<^verbatim>\<open>type\<close>). The provider is a function from a call to the
  promise it returns.
\<close>

datatype api_call =
    Allowance "string option" "string option" "string option"
  | EstimateWithdrawGas "string option" "string option" bignum "string option" withdraw_type
  | EstimateApproveGas "string option" "string option" "string option"
  | GetGasPrice

type_synonym foxy_api = "api_call \<Rightarrow> bignum promise"

text \<open>
  What the handlers read from the render they were created in: the provider, the
  \<^verbatim>\<open>state.userAddress\<close> of that render, the query parameters and \<^verbatim>\<open>asset.precision\<close>.
  \<open>gasPriceSettlesFirst\<close> belongs to the environment: it tells which of the two calls
  of an estimate step settles first, which is all \<^verbatim>\<open>Promise.all\<close> depends on besides
  the two outcomes.
\<close>

record env =
  api :: "foxy_api option"
  state_userAddress :: "string option"
  rewardId :: "string option"
  contractAddress :: "string option"
  precision :: nat
  gasPriceSettlesFirst :: bool

text \<open>The state of the wizard (\<^verbatim>\<open>WithdrawContext\<close>) as far as the component touches it.\<close>

record withdraw_fields =
  w_cryptoAmount :: "bignum option"
  w_fiatAmount :: "bignum option"
  w_withdrawType :: "withdraw_type option"
  w_estimatedGasCrypto :: "string option"

record foxy_withdraw_state =
  userAddress :: "string option"
  loading :: bool
  withdraw :: withdraw_fields
  approve :: "string option"

datatype withdraw_payload = FormValues foxy_withdraw_values | EstimatedGas string

datatype action =
    SET_WITHDRAW withdraw_payload
  | SET_APPROVE string
  | SET_LOADING bool

text \<open>
  Modelled from the spec: the reducer behind \<^verbatim>\<open>dispatch\<close> lives in the wizard's context
  module, not in the component's file. The spec gives the controller the operations
  \<^verbatim>\<open>setPayload(kind, payload)\<close> and \<^verbatim>\<open>setLoading(bool)\<close> on a state with the fields
  "loading (bool) ... plus whichever of withdraw/approve payload was last set": a
  withdraw payload overwrites the fields it carries and leaves the others, an approve
  payload replaces the approve payload, and the loading flag is set to the payload.
\<close>

fun reducer :: "foxy_withdraw_state \<Rightarrow> action \<Rightarrow> foxy_withdraw_state" where
  "reducer s (SET_WITHDRAW (FormValues v)) =
     s\<lparr>withdraw := (withdraw s)\<lparr>w_cryptoAmount := Some (cryptoAmount v),
                                 w_fiatAmount := Some (fiatAmount v),
                                 w_withdrawType := Some (withdrawType v)\<rparr>\<rparr>"
| "reducer s (SET_WITHDRAW (EstimatedGas g)) =
     s\<lparr>withdraw := (withdraw s)\<lparr>w_estimatedGasCrypto := Some g\<rparr>\<rparr>"
| "reducer s (SET_APPROVE g) = s\<lparr>approve := Some g\<rparr>"
| "reducer s (SET_LOADING b) = s\<lparr>loading := b\<rparr>"

text \<open>A notification: \<^verbatim>\<open>translate\<close> is represented by the key it is given.\<close>

record toast =
  position :: string
  description :: string
  title :: string
  status :: string

text \<open>
  Everything a handler can change or cause: the wizard's state and the actions
  dispatched to it, the steps passed to \<^verbatim>\<open>onNext\<close>, the notifications shown, the
  calls issued to the provider and the functions that logged an error, each in order.
\<close>

record world =
  wizard :: foxy_withdraw_state
  actions :: "action list"
  steps :: "defi_step list"
  toasts :: "toast list"
  calls :: "api_call list"
  errors_logged :: "string list"

definition dispatch :: "action \<Rightarrow> world \<Rightarrow> world" where
  "dispatch a w = w\<lparr>wizard := reducer (wizard w) a, actions := actions w @ [a]\<rparr>"

definition onNext :: "defi_step \<Rightarrow> world \<Rightarrow> world" where
  "onNext st w = w\<lparr>steps := steps w @ [st]\<rparr>"

definition call_api :: "api_call \<Rightarrow> world \<Rightarrow> world" where
  "call_api c w = w\<lparr>calls := calls w @ [c]\<rparr>"

definition log_error :: "string \<Rightarrow> world \<Rightarrow> world" where
  "log_error fn w = w\<lparr>errors_logged := errors_logged w @ [fn]\<rparr>"

definition error_toast :: "string \<Rightarrow> toast" where
  "error_toast d = \<lparr>position = ''top-right'', description = d,
                    title = ''common.somethingWentWrong'', status = ''error''\<rparr>"

definition show_toast :: "toast \<Rightarrow> world \<Rightarrow> world" where
  "show_toast t w = w\<lparr>toasts := toasts w @ [t]\<rparr>"

text \<open>\<^verbatim>\<open>!x\<close> for a string that may be absent: true for \<^verbatim>\<open>undefined\<close> and for \<^verbatim>\<open>''\<close>.\<close>

definition falsy :: "string option \<Rightarrow> bool" where
  "falsy s = (s = None \<or> s = Some [])"

text \<open>\<^verbatim>\<open>String.prototype.includes\<close>.\<close>

fun starts_with :: "string \<Rightarrow> string \<Rightarrow> bool" where
  "starts_with s [] = True"
| "starts_with [] (x # xs) = False"
| "starts_with (c # cs) (x # xs) = (c = x \<and> starts_with cs xs)"

fun includes_str :: "string \<Rightarrow> string \<Rightarrow> bool" where
  "includes_str [] sub = (sub = [])"
| "includes_str (c # cs) sub = (starts_with (c # cs) sub \<or> includes_str cs sub)"

text \<open>
  \<^verbatim>\<open>Promise.all\<close> of two promises: fulfilled with both values when both are fulfilled,
  otherwise rejected with what the first promise to reject was rejected with.
\<close>

fun promise_all2 :: "bool \<Rightarrow> 'a promise \<Rightarrow> 'b promise \<Rightarrow> ('a \<times> 'b) promise" where
  "promise_all2 snd_first (Resolved a) (Resolved b) = Resolved (a, b)"
| "promise_all2 snd_first (Rejected e) (Resolved b) = Rejected e"
| "promise_all2 snd_first (Resolved a) (Rejected e) = Rejected e"
| "promise_all2 snd_first (Rejected e1) (Rejected e2) = Rejected (if snd_first then e2 else e1)"

subsection \<open>The gas estimates\<close>

text \<open>Line 96-97: the test for the reserve failure.\<close>

fun fundsError :: "js_thrown \<Rightarrow> bool" where
  "fundsError (JsError msg) = includes_str msg ''Not enough funds in reserve''"
| "fundsError (JsOther v) = False"

text \<open>
  The argument objects of the three provider calls (lines 79-87, 122-126, 175-179).
  The amount of a withdrawal estimate is the requested amount in base units, with no
  decimal places.
\<close>

definition withdrawGasCall :: "env \<Rightarrow> foxy_withdraw_values \<Rightarrow> api_call" where
  "withdrawGasCall e withdraw_vals =
     EstimateWithdrawGas (rewardId e) (contractAddress e)
       (decimalPlaces 0 ROUNDING_MODE
          (bnOrZero (times_bn (cryptoAmount withdraw_vals) (pow10 (precision e)))))
       (state_userAddress e) (withdrawType withdraw_vals)"

definition approveGasCall :: "env \<Rightarrow> api_call" where
  "approveGasCall e = EstimateApproveGas (rewardId e) (contractAddress e) (state_userAddress e)"

definition allowanceCall :: "env \<Rightarrow> api_call" where
  "allowanceCall e = Allowance (rewardId e) (contractAddress e) (state_userAddress e)"

text \<open>
  \<^verbatim>\<open>getWithdrawGasEstimate\<close> (lines 75-107). The result is \<open>None\<close> where the source
  returns \<^verbatim>\<open>undefined\<close>.
\<close>

definition getWithdrawGasEstimate ::
  "env \<Rightarrow> foxy_withdraw_values \<Rightarrow> world \<Rightarrow> string option \<times> world" where
  "getWithdrawGasEstimate e withdraw_vals w =
     (case api e of
        None \<Rightarrow> (None, w)
      | Some a \<Rightarrow>
          if falsy (state_userAddress e) \<or> falsy (rewardId e) then (None, w)
          else
            let call = withdrawGasCall e withdraw_vals;
                w1 = call_api GetGasPrice (call_api call w)
            in (case promise_all2 (gasPriceSettlesFirst e) (a call) (a GetGasPrice) of
                  Resolved (gasLimit, gasPrice) \<Rightarrow>
                    (Some (toFixed0 (bnOrZero (times_bn gasPrice gasLimit))), w1)
                | Rejected error \<Rightarrow>
                    (None,
                     show_toast
                       (error_toast (if fundsError error then ''defi.notEnoughFundsInReserve''
                                     else ''common.somethingWentWrong''))
                       (log_error ''getWithdrawGasEstimate'' w1))))"

text \<open>\<^verbatim>\<open>getApproveGasEstimate\<close> (lines 171-192).\<close>

definition getApproveGasEstimate :: "env \<Rightarrow> world \<Rightarrow> string option \<times> world" where
  "getApproveGasEstimate e w =
     (case api e of
        None \<Rightarrow> (None, w)
      | Some a \<Rightarrow>
          if falsy (state_userAddress e) \<or> falsy (rewardId e) then (None, w)
          else
            let call = approveGasCall e;
                w1 = call_api GetGasPrice (call_api call w)
            in (case promise_all2 (gasPriceSettlesFirst e) (a call) (a GetGasPrice) of
                  Resolved (gasLimit, gasPrice) \<Rightarrow>
                    (Some (toFixed0 (bnOrZero (times_bn gasPrice gasLimit))), w1)
                | Rejected error \<Rightarrow>
                    (None,
                     show_toast (error_toast ''common.somethingWentWrongBody'')
                       (log_error ''getApproveEstimate'' w1))))"

subsection \<open>Submission\<close>

text \<open>
  \<^verbatim>\<open>handleContinue\<close> (lines 109-169). The \<^verbatim>\<open>catch\<close> block of line 156 is reached
  when the allowance query is rejected; the two estimate functions catch their own
  failures and return \<^verbatim>\<open>undefined\<close>.
\<close>

definition handleContinue :: "env \<Rightarrow> foxy_withdraw_values \<Rightarrow> world \<Rightarrow> world" where
  "handleContinue e formValues w =
     (case api e of
        None \<Rightarrow> w
      | Some a \<Rightarrow>
          if falsy (state_userAddress e) then w
          else
            (let w1 = dispatch (SET_WITHDRAW (FormValues formValues)) w;
                 w2 = dispatch (SET_LOADING True) w1;
                 call = allowanceCall e;
                 w3 = call_api call w2
             in (case a call of
                   Rejected error \<Rightarrow>
                     show_toast (error_toast ''common.somethingWentWrongBody'')
                       (dispatch (SET_LOADING False) (log_error ''handleContinue'' w3))
                 | Resolved allowance_raw \<Rightarrow>
                     (let allowance = bnOrZero (div_bn allowance_raw (pow10 (precision e)))
                      in if gte allowance (cryptoAmount formValues) then
                           (case getWithdrawGasEstimate e formValues w3 of
                              (None, w4) \<Rightarrow> w4
                            | (Some estimatedGasCrypto, w4) \<Rightarrow>
                                if estimatedGasCrypto = [] then w4
                                else dispatch (SET_LOADING False)
                                       (onNext Confirm
                                          (dispatch (SET_WITHDRAW (EstimatedGas estimatedGasCrypto)) w4)))
                         else
                           (case getApproveGasEstimate e w3 of
                              (None, w4) \<Rightarrow> w4
                            | (Some estimatedGasCrypto, w4) \<Rightarrow>
                                if estimatedGasCrypto = [] then w4
                                else dispatch (SET_LOADING False)
                                       (onNext Approve
                                          (dispatch (SET_APPROVE estimatedGasCrypto) w4)))))))"

subsection \<open>Percent buttons\<close>

text \<open>Line 228: the available amount, from the raw balance.\<close>

definition cryptoAmountAvailable :: "bignum \<Rightarrow> nat \<Rightarrow> bignum" where
  "cryptoAmountAvailable balance p = bnOrZero (div_bn balance (pow10 p))"

text \<open>
  \<^verbatim>\<open>handlePercentClick\<close> (lines 198-209): the two \<^verbatim>\<open>setValue\<close> calls, in order. \<open>available\<close>
  is the \<^verbatim>\<open>cryptoAmountAvailable\<close> of the render and \<open>price\<close> is \<^verbatim>\<open>marketData.price\<close>.
\<close>

definition handlePercentClick ::
  "bignum \<Rightarrow> nat \<Rightarrow> bignum \<Rightarrow> bignum \<Rightarrow> (form_field \<times> bignum) list" where
  "handlePercentClick available p price percent =
     (let cryptoAmount' = decimalPlaces p ROUND_DOWN (times_bn (bnOrZero available) percent);
          fiatAmount' = times_bn (bnOrZero cryptoAmount') price
      in [(FiatAmount, fiatAmount'), (CryptoAmount, cryptoAmount')])"

section \<open>Notions used in the statements\<close>

fun is_rejected :: "'a promise \<Rightarrow> bool" where
  "is_rejected (Rejected x) = True"
| "is_rejected (Resolved v) = False"

text \<open>
  The estimate call that a submission issues once the allowance query has answered
  \<open>allowance_raw\<close>: the test is the one of line 131.
\<close>

definition estimateCall :: "env \<Rightarrow> foxy_withdraw_values \<Rightarrow> bignum \<Rightarrow> api_call" where
  "estimateCall e formValues allowance_raw =
     (if gte (bnOrZero (div_bn allowance_raw (pow10 (precision e)))) (cryptoAmount formValues)
      then withdrawGasCall e formValues else approveGasCall e)"

text \<open>
  A submission fails when the allowance query is rejected, or when it answers and one of
  the two calls of the estimate that follows is rejected.
\<close>

definition flow_fails :: "foxy_api \<Rightarrow> env \<Rightarrow> foxy_withdraw_values \<Rightarrow> bool" where
  "flow_fails a e formValues =
     (case a (allowanceCall e) of
        Rejected err \<Rightarrow> True
      | Resolved allowance_raw \<Rightarrow>
          is_rejected (a (estimateCall e formValues allowance_raw)) \<or> is_rejected (a GetGasPrice))"

text \<open>
  The rejection that reaches the \<^verbatim>\<open>catch\<close> block of an estimate whose first call is
  \<open>call\<close>: the rejection of \<open>call\<close>, unless the gas price call was rejected before it,
  or the rejection of the gas price call, unless \<open>call\<close> was rejected before it.
\<close>

definition reported_rejection :: "env \<Rightarrow> foxy_api \<Rightarrow> api_call \<Rightarrow> js_thrown \<Rightarrow> bool" where
  "reported_rejection e a call err =
     ((a call = Rejected err \<and> (\<not> is_rejected (a GetGasPrice) \<or> \<not> gasPriceSettlesFirst e))
      \<or> (a GetGasPrice = Rejected err \<and> (\<not> is_rejected (a call) \<or> gasPriceSettlesFirst e)))"

text \<open>Reading a decimal string back, to say what the string of an integer denotes.\<close>

definition digit_val :: "char \<Rightarrow> nat" where
  "digit_val c = of_char c - 48"

definition read_nat :: "string \<Rightarrow> nat" where
  "read_nat s = foldl (\<lambda>acc c. 10 * acc + digit_val c) 0 s"

fun read_int :: "string \<Rightarrow> int" where
  "read_int [] = 0"
| "read_int (c # cs) = (if c = CHR ''-'' then - int (read_nat cs) else int (read_nat (c # cs)))"

section \<open>A concrete wizard\<close>

text \<open>
  A provider that answers each kind of call with a fixed promise, a render of the
  component for a token of precision 18, the form of the spec's scenarios (amount 50)
  and a wizard that has not been used yet.
\<close>

fun fixed_api ::
  "bignum promise \<Rightarrow> bignum promise \<Rightarrow> bignum promise \<Rightarrow> bignum promise \<Rightarrow> foxy_api" where
  "fixed_api al wg ag gp (Allowance t c u) = al"
| "fixed_api al wg ag gp (EstimateWithdrawGas t c n u ty) = wg"
| "fixed_api al wg ag gp (EstimateApproveGas t c u) = ag"
| "fixed_api al wg ag gp GetGasPrice = gp"

definition scenario_env :: "foxy_api \<Rightarrow> env" where
  "scenario_env a =
     \<lparr>api = Some a, state_userAddress = Some ''0xUser'', rewardId = Some ''0xFoxy'',
      contractAddress = Some ''0xStaking'', precision = 18, gasPriceSettlesFirst = False\<rparr>"

definition scenario_values :: foxy_withdraw_values where
  "scenario_values = \<lparr>cryptoAmount = BN_Fin 50, fiatAmount = BN_Fin 100, withdrawType = DELAYED\<rparr>"

definition fresh_world :: world where
  "fresh_world =
     \<lparr>wizard = \<lparr>userAddress = Some ''0xUser'', loading = False,
                withdraw = \<lparr>w_cryptoAmount = None, w_fiatAmount = None,
                            w_withdrawType = None, w_estimatedGasCrypto = None\<rparr>,
                approve = None\<rparr>,
      actions = [], steps = [], toasts = [], calls = [], errors_logged = []\<rparr>"

section \<open>Facts about the decimal type\<close>

lemma bnOrZero_Fin: "bnOrZero (BN_Fin a) = BN_Fin a"
  by (simp add: bnOrZero_def)

lemma bnOrZero_isFinite: "isFinite (bnOrZero x)"
  by (cases x) (simp_all add: bnOrZero_def)

lemma normalise_Fin: "bnOrZero (div_bn (BN_Fin b) (pow10 p)) = BN_Fin (b / 10 ^ p)"
  by (simp add: bnOrZero_def pow10_def)

lemma gt_Fin: "gt (BN_Fin a) (BN_Fin b) = (b < a)"
  by (auto simp: gt_def cmp_rat_def)

lemma gte_Fin: "gte (BN_Fin a) (BN_Fin b) = (b \<le> a)"
  by (auto simp: gte_def cmp_rat_def)

lemma isEqualTo_Fin: "isEqualTo (BN_Fin a) (BN_Fin b) = (a = b)"
  by (auto simp: isEqualTo_def cmp_rat_def)

lemma gte_NaN: "\<not> gte x BN_NaN" "\<not> gte BN_NaN y"
  by (cases x; simp add: gte_def)+

lemma round_int_of_int: "round_int m (of_int i) = i"
  by (cases m) (auto simp: floor_eq_iff)

lemma round_half_up_close: "\<bar>of_int (round_int ROUND_HALF_UP x) - x\<bar> \<le> 1 / 2"
proof (cases "x < 0")
  case True
  define n where "n = \<lfloor>- x + 1 / 2\<rfloor>"
  have bounds: "of_int n \<le> - x + 1 / 2" "- x + 1 / 2 < of_int n + 1"
    unfolding n_def by linarith+
  have r: "round_int ROUND_HALF_UP x = - n"
    using True by (simp add: n_def)
  show ?thesis unfolding r using bounds by linarith
next
  case False
  define n where "n = \<lfloor>x + 1 / 2\<rfloor>"
  have bounds: "of_int n \<le> x + 1 / 2" "x + 1 / 2 < of_int n + 1"
    unfolding n_def by linarith+
  have r: "round_int ROUND_HALF_UP x = n"
    using False by (simp add: n_def)
  show ?thesis unfolding r using bounds by linarith
qed

lemma round_down_toward_zero:
  "\<bar>of_int (round_int ROUND_DOWN x)\<bar> \<le> \<bar>x\<bar> \<and> \<bar>x\<bar> < \<bar>of_int (round_int ROUND_DOWN x)\<bar> + 1"
  by (cases "x < 0") (simp_all; linarith)+

subsection \<open>The string of an integer reads back as the integer\<close>

lemma digit_cases: "d < 10 \<Longrightarrow> d \<in> {0, 1, 2, 3, 4, 5, 6, 7, 8, 9::nat}"
  by auto

lemma digit_val_digit_char: "d < 10 \<Longrightarrow> digit_val (digit_char d) = d"
  by (drule digit_cases) (auto simp: digit_val_def digit_char_def)

lemma digit_char_not_minus: "d < 10 \<Longrightarrow> digit_char d \<noteq> CHR ''-''"
  by (drule digit_cases) (auto simp: digit_char_def)

lemma show_nat_nonempty: "show_nat n \<noteq> []"
  by (subst show_nat.simps) simp

lemma show_int_nonempty: "show_int i \<noteq> []"
  by (simp add: show_int_def show_nat_nonempty)

lemma toFixed0_nonempty: "toFixed0 x \<noteq> []"
  by (cases x) (simp_all add: show_int_nonempty)

lemma read_nat_snoc: "read_nat (s @ [c]) = 10 * read_nat s + digit_val c"
  by (simp add: read_nat_def)

lemma read_nat_show_nat: "read_nat (show_nat n) = n"
proof (induction n rule: show_nat.induct)
  case (1 n)
  show ?case
  proof (cases "n < 10")
    case True
    then show ?thesis
      by (subst show_nat.simps) (simp add: read_nat_def digit_val_digit_char)
  next
    case False
    with 1 show ?thesis
      by (subst show_nat.simps) (simp add: read_nat_snoc digit_val_digit_char)
  qed
qed

lemma hd_show_nat: "hd (show_nat n) \<noteq> CHR ''-''"
proof (induction n rule: show_nat.induct)
  case (1 n)
  show ?case
  proof (cases "n < 10")
    case True
    then show ?thesis
      by (subst show_nat.simps) (simp add: digit_char_not_minus)
  next
    case False
    with 1 show ?thesis
      by (subst show_nat.simps) (simp add: show_nat_nonempty)
  qed
qed

lemma read_int_show_int: "read_int (show_int i) = i"
proof (cases "i < 0")
  case True
  then show ?thesis by (simp add: show_int_def read_nat_show_nat)
next
  case False
  obtain c cs where eq: "show_nat (nat i) = c # cs"
    using show_nat_nonempty[of "nat i"] by (cases "show_nat (nat i)") auto
  with hd_show_nat[of "nat i"] have "c \<noteq> CHR ''-''" by simp
  with False eq read_nat_show_nat[of "nat i"] show ?thesis
    by (simp add: show_int_def)
qed

subsection \<open>Substring search\<close>

lemma starts_with_iff: "starts_with s sub \<longleftrightarrow> (\<exists>ss. s = sub @ ss)"
  by (induction s sub rule: starts_with.induct) auto

lemma includes_str_iff: "includes_str s sub \<longleftrightarrow> (\<exists>ps ss. s = ps @ sub @ ss)"
proof (induction s)
  case Nil
  then show ?case by auto
next
  case (Cons c cs)
  have "(\<exists>ps ss. c # cs = ps @ sub @ ss)
        \<longleftrightarrow> (\<exists>ss. c # cs = sub @ ss) \<or> (\<exists>ps ss. cs = ps @ sub @ ss)"
  proof
    assume "\<exists>ps ss. c # cs = ps @ sub @ ss"
    then obtain ps ss where e: "c # cs = ps @ sub @ ss" by blast
    show "(\<exists>ss. c # cs = sub @ ss) \<or> (\<exists>ps ss. cs = ps @ sub @ ss)"
    proof (cases ps)
      case Nil
      with e show ?thesis by auto
    next
      case (Cons x xs)
      with e have "cs = xs @ sub @ ss" by simp
      then show ?thesis by blast
    qed
  next
    assume "(\<exists>ss. c # cs = sub @ ss) \<or> (\<exists>ps ss. cs = ps @ sub @ ss)"
    then show "\<exists>ps ss. c # cs = ps @ sub @ ss"
    proof
      assume "\<exists>ss. c # cs = sub @ ss"
      then obtain ss where "c # cs = [] @ sub @ ss" by auto
      then show ?thesis by blast
    next
      assume "\<exists>ps ss. cs = ps @ sub @ ss"
      then obtain ps ss where "c # cs = (c # ps) @ sub @ ss" by auto
      then show ?thesis by blast
    qed
  qed
  with Cons show ?case by (simp add: starts_with_iff)
qed

section \<open>Facts about the submission flow\<close>

lemmas world_ops = dispatch_def onNext_def call_api_def log_error_def show_toast_def

lemmas scenario_defs = scenario_env_def scenario_values_def fresh_world_def
  allowanceCall_def withdrawGasCall_def approveGasCall_def estimateCall_def

lemma promise_all2_rejected:
  "is_rejected p \<or> is_rejected q \<Longrightarrow> is_rejected (promise_all2 b p q)"
  by (cases p; cases q) auto

lemma is_rejected_iff: "is_rejected p \<longleftrightarrow> (\<exists>err. p = Rejected err)"
  by (cases p) auto

lemma getWithdrawGasEstimate_resolved:
  assumes "api e = Some a" "\<not> falsy (state_userAddress e)" "\<not> falsy (rewardId e)"
    and "a (withdrawGasCall e fv) = Resolved gl" "a GetGasPrice = Resolved gp"
  shows "getWithdrawGasEstimate e fv w =
           (Some (toFixed0 (bnOrZero (times_bn gp gl))),
            call_api GetGasPrice (call_api (withdrawGasCall e fv) w))"
  using assms by (simp add: getWithdrawGasEstimate_def Let_def)

lemma getApproveGasEstimate_resolved:
  assumes "api e = Some a" "\<not> falsy (state_userAddress e)" "\<not> falsy (rewardId e)"
    and "a (approveGasCall e) = Resolved gl" "a GetGasPrice = Resolved gp"
  shows "getApproveGasEstimate e w =
           (Some (toFixed0 (bnOrZero (times_bn gp gl))),
            call_api GetGasPrice (call_api (approveGasCall e) w))"
  using assms by (simp add: getApproveGasEstimate_def Let_def)

lemma getWithdrawGasEstimate_rejected:
  assumes "api e = Some a" "\<not> falsy (state_userAddress e)" "\<not> falsy (rewardId e)"
    and "promise_all2 (gasPriceSettlesFirst e) (a (withdrawGasCall e fv)) (a GetGasPrice) = Rejected err"
  shows "getWithdrawGasEstimate e fv w =
           (None,
            show_toast (error_toast (if fundsError err then ''defi.notEnoughFundsInReserve''
                                     else ''common.somethingWentWrong''))
              (log_error ''getWithdrawGasEstimate''
                 (call_api GetGasPrice (call_api (withdrawGasCall e fv) w))))"
  using assms by (simp add: getWithdrawGasEstimate_def Let_def)

lemma getApproveGasEstimate_rejected:
  assumes "api e = Some a" "\<not> falsy (state_userAddress e)" "\<not> falsy (rewardId e)"
    and "promise_all2 (gasPriceSettlesFirst e) (a (approveGasCall e)) (a GetGasPrice) = Rejected err"
  shows "getApproveGasEstimate e w =
           (None,
            show_toast (error_toast ''common.somethingWentWrongBody'')
              (log_error ''getApproveEstimate''
                 (call_api GetGasPrice (call_api (approveGasCall e) w))))"
  using assms by (simp add: getApproveGasEstimate_def Let_def)

lemma reported_rejection_promise_all2:
  "reported_rejection e a call err \<Longrightarrow>
   promise_all2 (gasPriceSettlesFirst e) (a call) (a GetGasPrice) = Rejected err"
  by (cases "a call"; cases "a GetGasPrice") (auto simp: reported_rejection_def)

lemma fundsError_iff:
  "fundsError err \<longleftrightarrow>
     (\<exists>msg ps ss. err = JsError msg \<and> msg = ps @ ''Not enough funds in reserve'' @ ss)"
  by (cases err) (auto simp: includes_str_iff)

text \<open>
  An estimate with a rejected call returns nothing, and touches neither the wizard nor
  the step: all it adds are the two calls, a log entry and a notification.
\<close>

lemma getWithdrawGasEstimate_fails:
  "is_rejected (a (withdrawGasCall e fv)) \<or> is_rejected (a GetGasPrice) \<Longrightarrow> api e = Some a \<Longrightarrow>
   fst (getWithdrawGasEstimate e fv w) = None
   \<and> steps (snd (getWithdrawGasEstimate e fv w)) = steps w
   \<and> actions (snd (getWithdrawGasEstimate e fv w)) = actions w
   \<and> wizard (snd (getWithdrawGasEstimate e fv w)) = wizard w"
  using promise_all2_rejected[of "a (withdrawGasCall e fv)" "a GetGasPrice" "gasPriceSettlesFirst e"]
  by (auto simp: getWithdrawGasEstimate_def Let_def world_ops is_rejected_iff split: promise.splits)

lemma getApproveGasEstimate_fails:
  "is_rejected (a (approveGasCall e)) \<or> is_rejected (a GetGasPrice) \<Longrightarrow> api e = Some a \<Longrightarrow>
   fst (getApproveGasEstimate e w) = None
   \<and> steps (snd (getApproveGasEstimate e w)) = steps w
   \<and> actions (snd (getApproveGasEstimate e w)) = actions w
   \<and> wizard (snd (getApproveGasEstimate e w)) = wizard w"
  using promise_all2_rejected[of "a (approveGasCall e)" "a GetGasPrice" "gasPriceSettlesFirst e"]
  by (auto simp: getApproveGasEstimate_def Let_def world_ops is_rejected_iff split: promise.splits)

text \<open>
  A submission whose estimate has a rejected call ends after its first two dispatches
  (the return of lines 133 and 145).
\<close>

lemma handleContinue_failed_estimate:
  assumes "api e = Some a" "\<not> falsy (state_userAddress e)"
    and "a (allowanceCall e) = Resolved ra"
    and "is_rejected (a (estimateCall e fv ra)) \<or> is_rejected (a GetGasPrice)"
  shows "steps (handleContinue e fv w) = steps w
       \<and> actions (handleContinue e fv w) = actions w @ [SET_WITHDRAW (FormValues fv), SET_LOADING True]
       \<and> wizard (handleContinue e fv w) =
           reducer (reducer (wizard w) (SET_WITHDRAW (FormValues fv))) (SET_LOADING True)"
proof -
  let ?w3 = "call_api (allowanceCall e)
               (dispatch (SET_LOADING True) (dispatch (SET_WITHDRAW (FormValues fv)) w))"
  show ?thesis
  proof (cases "gte (bnOrZero (div_bn ra (pow10 (precision e)))) (cryptoAmount fv)")
    case True
    with assms(4) have "is_rejected (a (withdrawGasCall e fv)) \<or> is_rejected (a GetGasPrice)"
      by (simp add: estimateCall_def)
    from getWithdrawGasEstimate_fails[OF this assms(1), of ?w3]
    obtain w4 where "getWithdrawGasEstimate e fv ?w3 = (None, w4)" "steps w4 = steps ?w3"
      "actions w4 = actions ?w3" "wizard w4 = wizard ?w3"
      by (cases "getWithdrawGasEstimate e fv ?w3") auto
    with assms True show ?thesis
      by (simp add: handleContinue_def Let_def world_ops)
  next
    case False
    with assms(4) have "is_rejected (a (approveGasCall e)) \<or> is_rejected (a GetGasPrice)"
      by (simp add: estimateCall_def)
    from getApproveGasEstimate_fails[OF this assms(1), of ?w3]
    obtain w4 where "getApproveGasEstimate e ?w3 = (None, w4)" "steps w4 = steps ?w3"
      "actions w4 = actions ?w3" "wizard w4 = wizard ?w3"
      by (cases "getApproveGasEstimate e ?w3") auto
    with assms False show ?thesis
      by (simp add: handleContinue_def Let_def world_ops)
  qed
qed

lemma handleContinue_allowance_rejected:
  assumes "api e = Some a" "\<not> falsy (state_userAddress e)"
    and "a (allowanceCall e) = Rejected err"
  shows "handleContinue e fv w =
           show_toast (error_toast ''common.somethingWentWrongBody'')
             (dispatch (SET_LOADING False)
                (log_error ''handleContinue''
                   (call_api (allowanceCall e)
                      (dispatch (SET_LOADING True) (dispatch (SET_WITHDRAW (FormValues fv)) w)))))"
  using assms by (simp add: handleContinue_def Let_def)

text \<open>
  Where the loading flag ends: it is cleared when the allowance query is rejected and
  when the estimate succeeds, and it is left set when the estimate fails.
\<close>

lemma handleContinue_loading_cleared:
  assumes "api e = Some a" "\<not> falsy (state_userAddress e)"
  shows "a (allowanceCall e) = Rejected err \<Longrightarrow> \<not> loading (wizard (handleContinue e fv w))"
    and "a (allowanceCall e) = Resolved ra \<Longrightarrow> \<not> falsy (rewardId e) \<Longrightarrow>
         a (estimateCall e fv ra) = Resolved gl \<Longrightarrow> a GetGasPrice = Resolved gp \<Longrightarrow>
         \<not> loading (wizard (handleContinue e fv w))"
proof -
  show "\<not> loading (wizard (handleContinue e fv w))" if "a (allowanceCall e) = Rejected err"
    using handleContinue_allowance_rejected[OF assms that, of fv w] by (simp add: world_ops)
  show "\<not> loading (wizard (handleContinue e fv w))"
    if "a (allowanceCall e) = Resolved ra" "\<not> falsy (rewardId e)"
      "a (estimateCall e fv ra) = Resolved gl" "a GetGasPrice = Resolved gp"
  proof (cases "gte (bnOrZero (div_bn ra (pow10 (precision e)))) (cryptoAmount fv)")
    case True
    with that(3) have "a (withdrawGasCall e fv) = Resolved gl" by (simp add: estimateCall_def)
    from getWithdrawGasEstimate_resolved[OF assms that(2) this that(4)] assms that(1) True
    show ?thesis by (simp add: handleContinue_def Let_def world_ops toFixed0_nonempty)
  next
    case False
    with that(3) have "a (approveGasCall e) = Resolved gl" by (simp add: estimateCall_def)
    from getApproveGasEstimate_resolved[OF assms that(2) this that(4)] assms that(1) False
    show ?thesis by (simp add: handleContinue_def Let_def world_ops toFixed0_nonempty)
  qed
qed

lemma handleContinue_loading_left_set:
  assumes "api e = Some a" "\<not> falsy (state_userAddress e)"
    and "a (allowanceCall e) = Resolved ra"
    and "is_rejected (a (estimateCall e fv ra)) \<or> is_rejected (a GetGasPrice)"
  shows "loading (wizard (handleContinue e fv w))"
  using handleContinue_failed_estimate[OF assms, of w] by simp

section \<open>The claims\<close>

text \<open>
  C1. A submission that passes the preconditions (user address and provider present)
  and whose gas estimate succeeds goes to the Confirm step if the normalised allowance,
  the raw allowance divided by \<open>10 ^ precision\<close>, is at least the requested amount,
  and to the Approve step if it is strictly less.
\<close>

theorem handleContinue_routes:
  assumes "api e = Some a" "\<not> falsy (state_userAddress e)" "\<not> falsy (rewardId e)"
    and "a (allowanceCall e) = Resolved (BN_Fin raw)"
    and "cryptoAmount fv = BN_Fin v"
    and "a GetGasPrice = Resolved gp"
  shows "(v \<le> raw / 10 ^ precision e \<and> a (withdrawGasCall e fv) = Resolved gl
            \<longrightarrow> steps (handleContinue e fv w) = steps w @ [Confirm])
       \<and> (raw / 10 ^ precision e < v \<and> a (approveGasCall e) = Resolved gl'
            \<longrightarrow> steps (handleContinue e fv w) = steps w @ [Approve])"
  using assms
  by (auto simp: handleContinue_def Let_def normalise_Fin gte_Fin
      getWithdrawGasEstimate_resolved getApproveGasEstimate_resolved toFixed0_nonempty world_ops)

text \<open>
  The two scenarios of the spec: precision 18, amount 50, and a raw allowance of
  \<open>60 * 10 ^ 18\<close> (Confirm) or \<open>10 * 10 ^ 18\<close> (Approve).
\<close>

theorem handleContinue_routes_witness:
  "steps (handleContinue
            (scenario_env (fixed_api (Resolved (BN_Fin (60 * 10 ^ 18))) (Resolved (BN_Fin 90000))
                             (Resolved (BN_Fin 50000)) (Resolved (BN_Fin 1000000000))))
            scenario_values fresh_world) = [Confirm]
   \<and> steps (handleContinue
            (scenario_env (fixed_api (Resolved (BN_Fin (10 * 10 ^ 18))) (Resolved (BN_Fin 90000))
                             (Resolved (BN_Fin 50000)) (Resolved (BN_Fin 1000000000))))
            scenario_values fresh_world) = [Approve]"
proof -
  let ?a = "\<lambda>r. fixed_api (Resolved (BN_Fin (r * 10 ^ 18))) (Resolved (BN_Fin 90000))
                 (Resolved (BN_Fin 50000)) (Resolved (BN_Fin 1000000000))"
  have h: "api (scenario_env (?a r)) = Some (?a r)"
       "\<not> falsy (state_userAddress (scenario_env (?a r)))"
       "\<not> falsy (rewardId (scenario_env (?a r)))"
       "?a r (allowanceCall (scenario_env (?a r))) = Resolved (BN_Fin (r * 10 ^ 18))"
       "cryptoAmount scenario_values = BN_Fin 50"
       "?a r GetGasPrice = Resolved (BN_Fin 1000000000)" for r
    by (simp_all add: scenario_defs falsy_def)
  have c: "(50::rat) \<le> 60 * 10 ^ 18 / 10 ^ precision (scenario_env (?a 60))
           \<and> ?a 60 (withdrawGasCall (scenario_env (?a 60)) scenario_values) = Resolved (BN_Fin 90000)"
    by (simp add: scenario_defs)
  have d: "(10::rat) * 10 ^ 18 / 10 ^ precision (scenario_env (?a 10)) < 50
           \<and> ?a 10 (approveGasCall (scenario_env (?a 10))) = Resolved (BN_Fin 50000)"
    by (simp add: scenario_defs)
  from handleContinue_routes[OF h(1-6), of 60 "BN_Fin 90000" fresh_world "BN_Fin 50000"] c
  have 1: "steps (handleContinue (scenario_env (?a 60)) scenario_values fresh_world)
           = steps fresh_world @ [Confirm]"
    by blast
  from handleContinue_routes[OF h(1-6), of 10 "BN_Fin 90000" fresh_world "BN_Fin 50000"] d
  have 2: "steps (handleContinue (scenario_env (?a 10)) scenario_values fresh_world)
           = steps fresh_world @ [Approve]"
    by blast
  from 1 2 show ?thesis by (simp add: fresh_world_def)
qed

text \<open>
  C2. The claim: every submission that passes the preconditions has reset the loading
  flag to false when it returns. The source at a submission whose allowance is
  sufficient and whose withdrawal estimate is rejected: \<^verbatim>\<open>getWithdrawGasEstimate\<close>
  catches the rejection and returns \<^verbatim>\<open>undefined\<close>, \<^verbatim>\<open>handleContinue\<close> returns at line
  133, and the loading flag set at line 116 is still true.
\<close>

theorem handleContinue_failed_estimate_keeps_loading:
  "loading (wizard (handleContinue
      (scenario_env (fixed_api (Resolved (BN_Fin (60 * 10 ^ 18)))
                       (Rejected (JsError ''Not enough funds in reserve''))
                       (Resolved (BN_Fin 50000)) (Resolved (BN_Fin 1000000000))))
      scenario_values fresh_world)) = True"
  by (simp add: handleContinue_def getWithdrawGasEstimate_def Let_def scenario_defs falsy_def
      world_ops bnOrZero_def pow10_def gte_def cmp_rat_def)

text \<open>
  C3. For a raw balance \<open>B\<close>, normalised by dividing by \<open>10 ^ precision\<close>, and an entered
  value \<open>V\<close>, \<^verbatim>\<open>validateCryptoAmount\<close> returns \<^verbatim>\<open>true\<close> exactly when \<open>0 < V\<close> and \<open>V\<close>
  is at most the normalised balance; it returns the error code
  \<^verbatim>\<open>common.insufficientFunds\<close> exactly when \<open>V\<close> is negative or is positive and exceeds
  the normalised balance; and it returns the empty string exactly when \<open>V = 0\<close>, whatever
  the balance. (The statement holds for every \<open>B\<close>, so for every \<open>B \<ge> 0\<close>.)
\<close>

theorem validateCryptoAmount_valid_iff:
  "validateCryptoAmount (BN_Fin B) p (BN_Fin V)
     = (if V = 0 then JStr ''''
        else if 0 < V \<and> V \<le> B / 10 ^ p then JBool True
        else JStr ''common.insufficientFunds'')
   \<and> (validateCryptoAmount (BN_Fin B) p (BN_Fin V) = JBool True \<longleftrightarrow> 0 < V \<and> V \<le> B / 10 ^ p)
   \<and> (validateCryptoAmount (BN_Fin B) p (BN_Fin V) = JStr ''common.insufficientFunds''
        \<longleftrightarrow> V < 0 \<or> (0 < V \<and> B / 10 ^ p < V))
   \<and> (validateCryptoAmount (BN_Fin B) p (BN_Fin V) = JStr '''' \<longleftrightarrow> V = 0)
   \<and> validateCryptoAmount (BN_Fin B) p (BN_Fin 0) = JStr ''''"
  by (auto simp: validateCryptoAmount_def Let_def normalise_Fin bnOrZero_Fin gt_Fin gte_Fin
      isEqualTo_Fin)

text \<open>
  C4. For a percent among 0.25, 0.5, 0.75 and 1 and an available amount \<open>A\<close>,
  \<^verbatim>\<open>handlePercentClick\<close> sets the crypto amount to \<open>A\<close> times the percent, cut
  toward zero to \<open>precision\<close> decimal places: it is never larger in magnitude than the
  product, it is less than one unit of the last place away from it, and for an
  available amount that is not negative it is at most the product. The fiat amount is
  the crypto amount times the price. For 0.5 of 1.23456789 at precision 4 the crypto
  amount is 0.6172.
\<close>

theorem handlePercentClick_truncates:
  assumes "q \<in> {1 / 4, 1 / 2, 3 / 4, 1}"
  shows "(let c = of_int (round_int ROUND_DOWN (A * q * 10 ^ p)) / 10 ^ p
          in handlePercentClick (BN_Fin A) p price (BN_Fin q)
               = [(FiatAmount, times_bn (BN_Fin c) price), (CryptoAmount, BN_Fin c)]
           \<and> \<bar>c\<bar> \<le> \<bar>A * q\<bar>
           \<and> \<bar>A * q\<bar> < \<bar>c\<bar> + 1 / 10 ^ p
           \<and> (0 \<le> A \<longrightarrow> 0 \<le> c \<and> c \<le> A * q))
       \<and> handlePercentClick (BN_Fin (123456789 / 100000000)) 4 price (BN_Fin (1 / 2))
           = [(FiatAmount, times_bn (BN_Fin (6172 / 10000)) price),
              (CryptoAmount, BN_Fin (6172 / 10000))]"
proof -
  define x where "x = A * q * 10 ^ p"
  define n where "n = round_int ROUND_DOWN x"
  have pos: "(0::rat) < 10 ^ p" by simp
  have b: "\<bar>of_int n\<bar> \<le> \<bar>x\<bar>" "\<bar>x\<bar> < \<bar>of_int n :: rat\<bar> + 1"
    unfolding n_def using round_down_toward_zero[of x] by simp_all
  have absx: "\<bar>x\<bar> = \<bar>A * q\<bar> * 10 ^ p"
    by (simp add: x_def abs_mult)
  have 1: "\<bar>of_int n / 10 ^ p\<bar> \<le> \<bar>A * q\<bar>"
    using b(1) pos by (simp add: absx abs_divide divide_le_eq del: of_int_abs)
  have 2: "\<bar>A * q\<bar> < \<bar>of_int n / 10 ^ p\<bar> + 1 / 10 ^ p"
  proof -
    have "\<bar>A * q\<bar> * 10 ^ p < (\<bar>of_int n :: rat\<bar> + 1)" using b(2) absx by simp
    then have "\<bar>A * q\<bar> < (\<bar>of_int n :: rat\<bar> + 1) / 10 ^ p"
      using pos by (simp add: less_divide_eq)
    then show ?thesis by (simp add: abs_divide add_divide_distrib del: of_int_abs)
  qed
  have 3: "0 \<le> of_int n / (10::rat) ^ p \<and> of_int n / 10 ^ p \<le> A * q" if "0 \<le> A"
  proof -
    from that assms have "0 \<le> A * q" by auto
    then have x0: "0 \<le> x" by (simp add: x_def)
    then have n0: "(0::rat) \<le> of_int n" by (simp add: n_def)
    with 1 \<open>0 \<le> A * q\<close> show ?thesis by (simp add: abs_divide del: of_int_abs)
  qed
  have ex: "round_int ROUND_DOWN (123456789 / 100000000 * (1 / 2) * 10 ^ 4) = 6172"
    by (simp add: floor_eq_iff)
  have 4: "handlePercentClick (BN_Fin (123456789 / 100000000)) 4 price (BN_Fin (1 / 2))
           = [(FiatAmount, times_bn (BN_Fin (6172 / 10000)) price),
              (CryptoAmount, BN_Fin (6172 / 10000))]"
    unfolding handlePercentClick_def Let_def bnOrZero_Fin times_bn.simps decimalPlaces.simps ex
    by simp
  have 5: "handlePercentClick (BN_Fin A) p price (BN_Fin q)
           = [(FiatAmount, times_bn (BN_Fin (of_int n / 10 ^ p)) price),
              (CryptoAmount, BN_Fin (of_int n / 10 ^ p))]"
    by (simp add: handlePercentClick_def Let_def bnOrZero_Fin n_def x_def del: round_int.simps)
  from 1 2 3 4 5 show ?thesis
    unfolding Let_def n_def x_def by blast
qed

text \<open>A quarter of 0.12345 at precision 2 with price 3: 0.0308625 is cut to 0.03.\<close>

theorem handlePercentClick_truncates_witness:
  "(1 / 4 :: rat) \<in> {1 / 4, 1 / 2, 3 / 4, 1} \<and> (0::rat) \<le> 12345 / 100000
   \<and> handlePercentClick (BN_Fin (12345 / 100000)) 2 (BN_Fin 3) (BN_Fin (1 / 4))
        = [(FiatAmount, BN_Fin (9 / 100)), (CryptoAmount, BN_Fin (3 / 100))]
   \<and> (3 / 100 :: rat) \<le> 12345 / 100000 * (1 / 4)"
proof -
  have h: "(1 / 4 :: rat) \<in> {1 / 4, 1 / 2, 3 / 4, 1}" by simp
  have r: "round_int ROUND_DOWN (12345 / 100000 * (1 / 4) * 10 ^ 2) = 3"
    by (simp add: floor_eq_iff)
  from handlePercentClick_truncates[OF h, of "12345 / 100000" 2 "BN_Fin 3"]
  show ?thesis unfolding Let_def r by simp
qed

text \<open>
  C5, as claimed: whenever the withdrawal estimate call is rejected with an \<^verbatim>\<open>Error\<close>
  whose message contains "Not enough funds in reserve", the notification carries the
  description \<^verbatim>\<open>defi.notEnoughFundsInReserve\<close>. Here the estimate call is rejected with
  such an error, the gas price call is rejected too and settles first, and the
  description is \<^verbatim>\<open>common.somethingWentWrong\<close>: \<^verbatim>\<open>Promise.all\<close> is rejected with
  what the first promise to reject was rejected with.
\<close>

theorem withdraw_estimate_notification_counterexample:
  "fixed_api (Resolved (BN_Fin (60 * 10 ^ 18))) (Rejected (JsError ''Not enough funds in reserve''))
       (Resolved (BN_Fin 50000)) (Rejected (JsError ''timeout''))
     (withdrawGasCall
        ((scenario_env (fixed_api (Resolved (BN_Fin (60 * 10 ^ 18)))
                          (Rejected (JsError ''Not enough funds in reserve''))
                          (Resolved (BN_Fin 50000)) (Rejected (JsError ''timeout''))))
           \<lparr>gasPriceSettlesFirst := True\<rparr>) scenario_values)
     = Rejected (JsError ''Not enough funds in reserve'')
   \<and> includes_str ''Not enough funds in reserve'' ''Not enough funds in reserve''
   \<and> map description (toasts (snd (getWithdrawGasEstimate
        ((scenario_env (fixed_api (Resolved (BN_Fin (60 * 10 ^ 18)))
                          (Rejected (JsError ''Not enough funds in reserve''))
                          (Resolved (BN_Fin 50000)) (Rejected (JsError ''timeout''))))
           \<lparr>gasPriceSettlesFirst := True\<rparr>)
        scenario_values fresh_world))) = [''common.somethingWentWrong'']"
  by (simp add: getWithdrawGasEstimate_def Let_def scenario_defs falsy_def world_ops
      error_toast_def)

text \<open>
  C5, amended. When the withdrawal estimate call is rejected with an \<^verbatim>\<open>Error\<close> whose
  message contains "Not enough funds in reserve", and the gas price call has not been
  rejected before it, the notification carries the description
  \<^verbatim>\<open>defi.notEnoughFundsInReserve\<close>. When the rejection that reaches the \<^verbatim>\<open>catch\<close>
  block, from either call, is not an \<^verbatim>\<open>Error\<close> whose message contains that text, the
  notification carries \<^verbatim>\<open>common.somethingWentWrong\<close>.
\<close>

theorem withdraw_estimate_notification:
  assumes "api e = Some a" "\<not> falsy (state_userAddress e)" "\<not> falsy (rewardId e)"
  shows "(a (withdrawGasCall e fv) = Rejected (JsError (ps @ ''Not enough funds in reserve'' @ ss))
            \<and> (\<not> is_rejected (a GetGasPrice) \<or> \<not> gasPriceSettlesFirst e)
          \<longrightarrow> toasts (snd (getWithdrawGasEstimate e fv w))
                = toasts w @ [error_toast ''defi.notEnoughFundsInReserve''])
       \<and> (reported_rejection e a (withdrawGasCall e fv) err
            \<and> (\<forall>ps ss. err \<noteq> JsError (ps @ ''Not enough funds in reserve'' @ ss))
          \<longrightarrow> toasts (snd (getWithdrawGasEstimate e fv w))
                = toasts w @ [error_toast ''common.somethingWentWrong''])"
proof (intro conjI impI)
  let ?m = "ps @ ''Not enough funds in reserve'' @ ss"
  assume h: "a (withdrawGasCall e fv) = Rejected (JsError ?m)
            \<and> (\<not> is_rejected (a GetGasPrice) \<or> \<not> gasPriceSettlesFirst e)"
  then have "reported_rejection e a (withdrawGasCall e fv) (JsError ?m)"
    by (simp add: reported_rejection_def)
  then have r: "promise_all2 (gasPriceSettlesFirst e) (a (withdrawGasCall e fv)) (a GetGasPrice)
             = Rejected (JsError ?m)"
    by (rule reported_rejection_promise_all2)
  have "fundsError (JsError ?m)"
    unfolding fundsError_iff by blast
  with getWithdrawGasEstimate_rejected[OF assms r, of w]
  show "toasts (snd (getWithdrawGasEstimate e fv w))
          = toasts w @ [error_toast ''defi.notEnoughFundsInReserve'']"
    by (simp add: world_ops)
next
  assume h: "reported_rejection e a (withdrawGasCall e fv) err
            \<and> (\<forall>ps ss. err \<noteq> JsError (ps @ ''Not enough funds in reserve'' @ ss))"
  then have r: "promise_all2 (gasPriceSettlesFirst e) (a (withdrawGasCall e fv)) (a GetGasPrice)
                = Rejected err"
    by (simp add: reported_rejection_promise_all2)
  from h have "\<not> fundsError err"
    unfolding fundsError_iff by blast
  with getWithdrawGasEstimate_rejected[OF assms r, of w]
  show "toasts (snd (getWithdrawGasEstimate e fv w))
          = toasts w @ [error_toast ''common.somethingWentWrong'']"
    by (simp add: world_ops)
qed

text \<open>
  A reverted estimate that names the reserve while the gas price resolves, and an
  estimate that times out.
\<close>

theorem withdraw_estimate_notification_witness:
  "map description (toasts (snd (getWithdrawGasEstimate
      (scenario_env (fixed_api (Resolved (BN_Fin (60 * 10 ^ 18)))
                       (Rejected (JsError ''execution reverted: Not enough funds in reserve''))
                       (Resolved (BN_Fin 50000)) (Resolved (BN_Fin 1000000000))))
      scenario_values fresh_world))) = [''defi.notEnoughFundsInReserve'']
   \<and> map description (toasts (snd (getWithdrawGasEstimate
      (scenario_env (fixed_api (Resolved (BN_Fin (60 * 10 ^ 18)))
                       (Rejected (JsError ''timeout''))
                       (Resolved (BN_Fin 50000)) (Resolved (BN_Fin 1000000000))))
      scenario_values fresh_world))) = [''common.somethingWentWrong'']"
proof -
  let ?a = "fixed_api (Resolved (BN_Fin (60 * 10 ^ 18)))
              (Rejected (JsError ''execution reverted: Not enough funds in reserve''))
              (Resolved (BN_Fin 50000)) (Resolved (BN_Fin 1000000000))"
  let ?b = "fixed_api (Resolved (BN_Fin (60 * 10 ^ 18))) (Rejected (JsError ''timeout''))
              (Resolved (BN_Fin 50000)) (Resolved (BN_Fin 1000000000))"
  have ha: "api (scenario_env ?a) = Some ?a"
       "\<not> falsy (state_userAddress (scenario_env ?a))"
       "\<not> falsy (rewardId (scenario_env ?a))"
    and hb: "api (scenario_env ?b) = Some ?b"
       "\<not> falsy (state_userAddress (scenario_env ?b))"
       "\<not> falsy (rewardId (scenario_env ?b))"
    by (simp_all add: scenario_defs falsy_def)
  have c1: "?a (withdrawGasCall (scenario_env ?a) scenario_values)
              = Rejected (JsError (''execution reverted: '' @ ''Not enough funds in reserve'' @ []))
          \<and> (\<not> is_rejected (?a GetGasPrice) \<or> \<not> gasPriceSettlesFirst (scenario_env ?a))"
    by (simp add: scenario_defs)
  have "\<not> includes_str ''timeout'' ''Not enough funds in reserve''"
    by simp
  then have n: "\<forall>ps ss. JsError ''timeout'' \<noteq> JsError (ps @ ''Not enough funds in reserve'' @ ss)"
    unfolding includes_str_iff by blast
  have "reported_rejection (scenario_env ?b) ?b (withdrawGasCall (scenario_env ?b) scenario_values)
          (JsError ''timeout'')"
    by (simp add: scenario_defs reported_rejection_def)
  with n have c2: "reported_rejection (scenario_env ?b) ?b
              (withdrawGasCall (scenario_env ?b) scenario_values) (JsError ''timeout'')
          \<and> (\<forall>ps ss. JsError ''timeout'' \<noteq> JsError (ps @ ''Not enough funds in reserve'' @ ss))"
    by (rule conjI[rotated])
  from withdraw_estimate_notification[OF ha, where fv = scenario_values
      and ps = "''execution reverted: ''" and ss = "[]" and w = fresh_world] c1
  have 1: "toasts (snd (getWithdrawGasEstimate (scenario_env ?a) scenario_values fresh_world))
           = toasts fresh_world @ [error_toast ''defi.notEnoughFundsInReserve'']"
    by blast
  from withdraw_estimate_notification[OF hb, where fv = scenario_values
      and err = "JsError ''timeout''" and w = fresh_world] c2
  have 2: "toasts (snd (getWithdrawGasEstimate (scenario_env ?b) scenario_values fresh_world))
           = toasts fresh_world @ [error_toast ''common.somethingWentWrong'']"
    by blast
  show ?thesis unfolding 1 2 by (simp add: fresh_world_def error_toast_def)
qed

text \<open>
  C6. When the gas limit call and the gas price call of an estimate both succeed, the
  fee returned is the product of gas price and gas limit, rounded to an integer and
  written as the decimal string of that integer, in the withdrawal estimate and in the
  approval estimate alike. The rounded value is within one half of the product, the
  string reads back as it, and for an integer price and limit it is the product itself.
\<close>

theorem estimate_fee_is_rounded_product:
  assumes "api e = Some a" "\<not> falsy (state_userAddress e)" "\<not> falsy (rewardId e)"
    and "a GetGasPrice = Resolved (BN_Fin gasPrice)"
  shows "(a (withdrawGasCall e fv) = Resolved (BN_Fin gasLimit)
            \<longrightarrow> fst (getWithdrawGasEstimate e fv w)
                  = Some (show_int (round_int ROUNDING_MODE (gasPrice * gasLimit))))
       \<and> (a (approveGasCall e) = Resolved (BN_Fin gasLimit)
            \<longrightarrow> fst (getApproveGasEstimate e w)
                  = Some (show_int (round_int ROUNDING_MODE (gasPrice * gasLimit))))
       \<and> \<bar>of_int (round_int ROUNDING_MODE (gasPrice * gasLimit)) - gasPrice * gasLimit\<bar> \<le> 1 / 2
       \<and> read_int (show_int (round_int ROUNDING_MODE (gasPrice * gasLimit)))
            = round_int ROUNDING_MODE (gasPrice * gasLimit)
       \<and> (gasPrice = of_int i \<and> gasLimit = of_int j
            \<longrightarrow> round_int ROUNDING_MODE (gasPrice * gasLimit) = i * j)"
proof (intro conjI impI)
  assume "a (withdrawGasCall e fv) = Resolved (BN_Fin gasLimit)"
  from getWithdrawGasEstimate_resolved[OF assms(1-3) this assms(4), of w]
  show "fst (getWithdrawGasEstimate e fv w)
          = Some (show_int (round_int ROUNDING_MODE (gasPrice * gasLimit)))"
    by (simp add: bnOrZero_Fin del: round_int.simps)
next
  assume "a (approveGasCall e) = Resolved (BN_Fin gasLimit)"
  from getApproveGasEstimate_resolved[OF assms(1-3) this assms(4), of w]
  show "fst (getApproveGasEstimate e w)
          = Some (show_int (round_int ROUNDING_MODE (gasPrice * gasLimit)))"
    by (simp add: bnOrZero_Fin del: round_int.simps)
next
  show "\<bar>of_int (round_int ROUNDING_MODE (gasPrice * gasLimit)) - gasPrice * gasLimit\<bar> \<le> 1 / 2"
    unfolding ROUNDING_MODE_def by (rule round_half_up_close)
next
  show "read_int (show_int (round_int ROUNDING_MODE (gasPrice * gasLimit)))
          = round_int ROUNDING_MODE (gasPrice * gasLimit)"
    by (rule read_int_show_int)
next
  assume "gasPrice = of_int i \<and> gasLimit = of_int j"
  then have "gasPrice * gasLimit = of_int (i * j)" by simp
  then show "round_int ROUNDING_MODE (gasPrice * gasLimit) = i * j"
    by (simp only: round_int_of_int)
qed

text \<open>A gas price of \<open>10 ^ 9\<close> with a limit of 90000 (withdrawal) and of 50000 (approval).\<close>

theorem estimate_fee_is_rounded_product_witness:
  "fst (getWithdrawGasEstimate
      (scenario_env (fixed_api (Resolved (BN_Fin (60 * 10 ^ 18))) (Resolved (BN_Fin 90000))
                       (Resolved (BN_Fin 50000)) (Resolved (BN_Fin 1000000000))))
      scenario_values fresh_world) = Some ''90000000000000''
   \<and> fst (getApproveGasEstimate
      (scenario_env (fixed_api (Resolved (BN_Fin (60 * 10 ^ 18))) (Resolved (BN_Fin 90000))
                       (Resolved (BN_Fin 50000)) (Resolved (BN_Fin 1000000000))))
      fresh_world) = Some ''50000000000000''"
proof -
  let ?a = "fixed_api (Resolved (BN_Fin (60 * 10 ^ 18))) (Resolved (BN_Fin 90000))
                 (Resolved (BN_Fin 50000)) (Resolved (BN_Fin 1000000000))"
  have h: "api (scenario_env ?a) = Some ?a"
       "\<not> falsy (state_userAddress (scenario_env ?a))"
       "\<not> falsy (rewardId (scenario_env ?a))"
       "?a GetGasPrice = Resolved (BN_Fin 1000000000)"
    by (simp_all add: scenario_defs falsy_def)
  have c1: "?a (withdrawGasCall (scenario_env ?a) scenario_values) = Resolved (BN_Fin 90000)"
    and c2: "?a (approveGasCall (scenario_env ?a)) = Resolved (BN_Fin 50000)"
    by (simp_all add: scenario_defs)
  have r1: "round_int ROUNDING_MODE (1000000000 * 90000) = 90000000000000"
    and r2: "round_int ROUNDING_MODE (1000000000 * 50000) = 50000000000000"
    by (simp_all add: ROUNDING_MODE_def floor_eq_iff)
  have s1: "show_int 90000000000000 = ''90000000000000''"
    and s2: "show_int 50000000000000 = ''50000000000000''"
    by (simp_all add: show_int_def show_nat.simps digit_char_def)
  note T = estimate_fee_is_rounded_product[OF h, where fv = scenario_values and w = fresh_world]
  from T[where gasLimit = 90000, THEN conjunct1, rule_format, OF c1]
  have 1: "fst (getWithdrawGasEstimate (scenario_env ?a) scenario_values fresh_world)
           = Some ''90000000000000''"
    unfolding r1 s1 .
  from T[where gasLimit = 50000, THEN conjunct2, THEN conjunct1, rule_format, OF c2]
  have 2: "fst (getApproveGasEstimate (scenario_env ?a) fresh_world) = Some ''50000000000000''"
    unfolding r2 s2 .
  from 1 2 show ?thesis by (rule conjI)
qed

text \<open>
  C7. In either estimate, if the gas limit call or the gas price call is rejected, the
  estimate returns no fee. A submission whose estimate fails this way dispatches
  nothing after its first two actions: no fee payload reaches the wizard, and
  \<^verbatim>\<open>onNext\<close> is not called.
\<close>

theorem failed_estimate_no_fee_no_transition:
  assumes "api e = Some a" "\<not> falsy (state_userAddress e)"
    and "a (allowanceCall e) = Resolved allowance_raw"
    and "is_rejected (a (estimateCall e fv allowance_raw)) \<or> is_rejected (a GetGasPrice)"
  shows "steps (handleContinue e fv w) = steps w
       \<and> actions (handleContinue e fv w)
            = actions w @ [SET_WITHDRAW (FormValues fv), SET_LOADING True]
       \<and> w_estimatedGasCrypto (withdraw (wizard (handleContinue e fv w)))
            = w_estimatedGasCrypto (withdraw (wizard w))
       \<and> approve (wizard (handleContinue e fv w)) = approve (wizard w)
       \<and> (is_rejected (a (withdrawGasCall e fv)) \<or> is_rejected (a GetGasPrice)
            \<longrightarrow> fst (getWithdrawGasEstimate e fv w) = None)
       \<and> (is_rejected (a (approveGasCall e)) \<or> is_rejected (a GetGasPrice)
            \<longrightarrow> fst (getApproveGasEstimate e w) = None)"
  using handleContinue_failed_estimate[OF assms, of w]
    getWithdrawGasEstimate_fails[OF _ assms(1), of fv w]
    getApproveGasEstimate_fails[OF _ assms(1), of w]
  by simp

text \<open>Sufficient allowance, a withdrawal estimate that succeeds, a gas price that fails.\<close>

theorem failed_estimate_no_fee_no_transition_witness:
  "steps (handleContinue
      (scenario_env (fixed_api (Resolved (BN_Fin (60 * 10 ^ 18))) (Resolved (BN_Fin 90000))
                       (Resolved (BN_Fin 50000)) (Rejected (JsError ''timeout''))))
      scenario_values fresh_world) = []
   \<and> actions (handleContinue
      (scenario_env (fixed_api (Resolved (BN_Fin (60 * 10 ^ 18))) (Resolved (BN_Fin 90000))
                       (Resolved (BN_Fin 50000)) (Rejected (JsError ''timeout''))))
      scenario_values fresh_world) = [SET_WITHDRAW (FormValues scenario_values), SET_LOADING True]"
proof -
  let ?a = "fixed_api (Resolved (BN_Fin (60 * 10 ^ 18))) (Resolved (BN_Fin 90000))
                 (Resolved (BN_Fin 50000)) (Rejected (JsError ''timeout''))"
  have h: "api (scenario_env ?a) = Some ?a"
       "\<not> falsy (state_userAddress (scenario_env ?a))"
       "?a (allowanceCall (scenario_env ?a)) = Resolved (BN_Fin (60 * 10 ^ 18))"
       "is_rejected (?a (estimateCall (scenario_env ?a) scenario_values (BN_Fin (60 * 10 ^ 18))))
        \<or> is_rejected (?a GetGasPrice)"
    by (simp_all add: scenario_defs falsy_def)
  from failed_estimate_no_fee_no_transition[OF h, of fresh_world]
  show ?thesis by (simp add: fresh_world_def)
qed

text \<open>
  C8. If the user address is absent or the provider is unavailable, \<^verbatim>\<open>handleContinue\<close>
  does nothing: no action is dispatched, no provider call is issued, no step is taken.
\<close>

theorem handleContinue_noop:
  "api e = None \<or> falsy (state_userAddress e) \<Longrightarrow> handleContinue e fv w = w"
  by (auto simp: handleContinue_def split: option.splits)

text \<open>A render without a user address.\<close>

theorem handleContinue_noop_witness:
  "falsy None
   \<and> handleContinue
        ((scenario_env (fixed_api (Resolved (BN_Fin (60 * 10 ^ 18))) (Resolved (BN_Fin 90000))
                          (Resolved (BN_Fin 50000)) (Resolved (BN_Fin 1000000000))))
           \<lparr>state_userAddress := None\<rparr>)
        scenario_values fresh_world = fresh_world"
proof -
  let ?e = "(scenario_env (fixed_api (Resolved (BN_Fin (60 * 10 ^ 18))) (Resolved (BN_Fin 90000))
                          (Resolved (BN_Fin 50000)) (Resolved (BN_Fin 1000000000))))
           \<lparr>state_userAddress := None\<rparr>"
  have h: "api ?e = None \<or> falsy (state_userAddress ?e)"
    by (simp add: falsy_def)
  from handleContinue_noop[OF h, of scenario_values fresh_world]
  show ?thesis by (simp add: falsy_def)
qed

text \<open>
  C9. When a submission fails (the allowance query or a call of the estimate is
  rejected), no step is taken and the withdraw payload dispatched at entry stays: the
  only actions after it set the loading flag, and the wizard still holds the submitted
  amounts and withdrawal type.
\<close>

theorem failure_keeps_submitted_payload:
  assumes "api e = Some a" "\<not> falsy (state_userAddress e)"
    and "flow_fails a e fv"
  shows "steps (handleContinue e fv w) = steps w
       \<and> actions (handleContinue e fv w)
            = actions w @ [SET_WITHDRAW (FormValues fv), SET_LOADING True]
                @ (if is_rejected (a (allowanceCall e)) then [SET_LOADING False] else [])
       \<and> w_cryptoAmount (withdraw (wizard (handleContinue e fv w))) = Some (cryptoAmount fv)
       \<and> w_fiatAmount (withdraw (wizard (handleContinue e fv w))) = Some (fiatAmount fv)
       \<and> w_withdrawType (withdraw (wizard (handleContinue e fv w))) = Some (withdrawType fv)"
proof (cases "a (allowanceCall e)")
  case (Resolved ra)
  with assms(3) have "is_rejected (a (estimateCall e fv ra)) \<or> is_rejected (a GetGasPrice)"
    by (simp add: flow_fails_def)
  from handleContinue_failed_estimate[OF assms(1,2) Resolved this, of w] Resolved
  show ?thesis by simp
next
  case (Rejected err)
  from handleContinue_allowance_rejected[OF assms(1,2) this, of fv w] Rejected
  show ?thesis by (simp add: world_ops)
qed

text \<open>A rejected allowance query.\<close>

theorem failure_keeps_submitted_payload_witness:
  "steps (handleContinue
      (scenario_env (fixed_api (Rejected (JsError ''timeout'')) (Resolved (BN_Fin 90000))
                       (Resolved (BN_Fin 50000)) (Resolved (BN_Fin 1000000000))))
      scenario_values fresh_world) = []
   \<and> w_cryptoAmount (withdraw (wizard (handleContinue
      (scenario_env (fixed_api (Rejected (JsError ''timeout'')) (Resolved (BN_Fin 90000))
                       (Resolved (BN_Fin 50000)) (Resolved (BN_Fin 1000000000))))
      scenario_values fresh_world))) = Some (BN_Fin 50)"
proof -
  let ?a = "fixed_api (Rejected (JsError ''timeout'')) (Resolved (BN_Fin 90000))
                 (Resolved (BN_Fin 50000)) (Resolved (BN_Fin 1000000000))"
  have h: "api (scenario_env ?a) = Some ?a"
       "\<not> falsy (state_userAddress (scenario_env ?a))"
       "flow_fails ?a (scenario_env ?a) scenario_values"
    by (simp_all add: scenario_defs falsy_def flow_fails_def)
  from failure_keeps_submitted_payload[OF h, of fresh_world]
  show ?thesis by (simp add: fresh_world_def scenario_values_def)
qed

text \<open>
  C10, as claimed: an input that does not parse as a number, and a negative input, are
  coerced to 0 by \<^verbatim>\<open>bnOrZero\<close>, and both validators return the empty string for them.
  A negative input is not coerced: for the input \<open>-1\<close> against a balance of 100 both
  validators return \<^verbatim>\<open>common.insufficientFunds\<close>.
\<close>

theorem validators_negative_counterexample:
  "bnOrZero (BN_Fin (- 1)) \<noteq> BN_Fin 0
   \<and> validateCryptoAmount (BN_Fin 100) 0 (BN_Fin (- 1)) \<noteq> JStr ''''
   \<and> validateFiatAmount (BN_Fin 100) 0 (BN_Fin 2) (BN_Fin (- 1)) \<noteq> JStr ''''"
  by (simp add: validateCryptoAmount_def validateFiatAmount_def Let_def bnOrZero_def
      isEqualTo_def gt_def gte_def cmp_rat_def pow10_def)

text \<open>
  C10, amended. For an input that does not parse as a number both validators return
  the empty string, since \<^verbatim>\<open>bnOrZero\<close> makes it 0 and 0 is the empty case: such an
  input is never reported as insufficient funds. A negative input stays negative and
  both validators return \<^verbatim>\<open>common.insufficientFunds\<close> for it.
\<close>

theorem validators_unparsable_empty_negative_rejected:
  "validateCryptoAmount balance p BN_NaN = JStr ''''
   \<and> validateFiatAmount balance p price BN_NaN = JStr ''''
   \<and> (V < 0 \<longrightarrow> validateCryptoAmount balance p (BN_Fin V) = JStr ''common.insufficientFunds''
                \<and> validateFiatAmount balance p price (BN_Fin V) = JStr ''common.insufficientFunds'')"
  by (auto simp: validateCryptoAmount_def validateFiatAmount_def Let_def bnOrZero_def
      isEqualTo_def gt_def cmp_rat_def)

text \<open>The inputs \<^verbatim>\<open>'abc'\<close> and \<open>-1\<close> against a balance of 100 and a price of 2.\<close>

theorem validators_unparsable_empty_negative_rejected_witness:
  "(- 1 :: rat) < 0
   \<and> validateCryptoAmount (BN_Fin 100) 0 BN_NaN = JStr ''''
   \<and> validateFiatAmount (BN_Fin 100) 0 (BN_Fin 2) BN_NaN = JStr ''''
   \<and> validateCryptoAmount (BN_Fin 100) 0 (BN_Fin (- 1)) = JStr ''common.insufficientFunds''
   \<and> validateFiatAmount (BN_Fin 100) 0 (BN_Fin 2) (BN_Fin (- 1)) = JStr ''common.insufficientFunds''"
  using validators_unparsable_empty_negative_rejected[of "BN_Fin 100" 0 "BN_Fin 2" "- 1"]
  by simp

end
